theory Spec2Isabelle
  imports Complex_Main "HOL-Library.Sublist"
begin

section \<open>Data model\<close>

text \<open>
  A Python float: not a number, one of the two infinities, or a finite value. Every
  double is of one of these forms; \<open>Finite x\<close> is the double of value \<open>x\<close>. The
  type has a finite value for every real number, which is more than there are doubles:
  what is proved for all of them holds for the doubles, and the examples use doubles.
  The handlers store floats and compare them, and do no arithmetic on them.
\<close>

datatype float = NaN | Infinity | MinusInfinity | Finite real

text \<open>Python's \<^verbatim>\<open><=\<close> on floats: every comparison with \<^verbatim>\<open>nan\<close> is false.\<close>

fun float_le :: "float \<Rightarrow> float \<Rightarrow> bool" where
  "float_le (Finite x) (Finite y) = (x \<le> y)"
| "float_le (Finite x) Infinity = True"
| "float_le (Finite x) MinusInfinity = False"
| "float_le MinusInfinity (Finite y) = True"
| "float_le MinusInfinity Infinity = True"
| "float_le MinusInfinity MinusInfinity = True"
| "float_le Infinity Infinity = True"
| "float_le Infinity (Finite y) = False"
| "float_le Infinity MinusInfinity = False"
| "float_le NaN y = False"
| "float_le x NaN = False"

text \<open>
  The mapped class of the \<^verbatim>\<open>addresses\<close> table:
  \<^verbatim>\<open>
  class Address(Base):
      id = Column(Integer, primary_key=True, index=True)
      name = Column(String, index=True)
      latitude = Column(Float, nullable=False)
      longitude = Column(Float, nullable=False)
  \<close>
  An attribute of the Python object may hold \<open>None\<close>, so the three data columns are
  options; that no handler ever stores \<open>None\<close> there is proved below, not assumed.
  The field \<open>id\<close> is named \<open>id_col\<close>, since \<open>id\<close> is the identity function of HOL.
  It is a Python integer, which has no bound; what the database driver does with an
  integer that does not fit a key is part of \<open>query_first\<close> below.
\<close>

record Address =
  id_col :: int
  name :: "string option"
  latitude :: "float option"
  longitude :: "float option"

text \<open>
  The database as a handler sees it through its session \<open>db\<close>: the rows of the table in
  the order in which \<^verbatim>\<open>db.query(Address)\<close> iterates over them.
\<close>

type_synonym Session = "Address list"

text \<open>
  The validated request models. \<^verbatim>\<open>AddressCreate\<close> has three required fields.
  \<^verbatim>\<open>AddressUpdate\<close> declares \<^verbatim>\<open>name: str = None\<close>, \<^verbatim>\<open>latitude: float = None\<close>,
  \<^verbatim>\<open>longitude: float = None\<close>: a field that was sent holds a value of its type, a field
  that was not sent is unset (and reads as the default). \<open>None\<close> below means unset.
\<close>

datatype AddressCreate =
  AddressCreate (create_name: string) (create_latitude: float) (create_longitude: float)

datatype AddressUpdate =
  AddressUpdate (update_name: "string option") (update_latitude: "float option")
    (update_longitude: "float option")

text \<open>
  One field of a JSON request body, as it reaches the validation of a request model: the
  key is missing, the key carries \<^verbatim>\<open>null\<close>, or it carries a value of the field's type.
  The body has been parsed by then: a number in it is already the float that the parser
  made of it, and the parser also reads \<^verbatim>\<open>NaN\<close> and \<^verbatim>\<open>Infinity\<close>.
  The request models declare no \<^verbatim>\<open>id\<close> field, so a body has the three fields below.
\<close>

datatype 'a field_input = Absent | Null | Given 'a

datatype payload =
  Payload (payload_name: "string field_input") (payload_latitude: "float field_input")
    (payload_longitude: "float field_input")

text \<open>
  The failures of a request. \<^verbatim>\<open>HTTPException(status_code, detail)\<close> is raised by a
  handler, and the validation error of the framework (status 422) before the handler
  runs. The others are raised by the libraries that a handler calls and are caught
  nowhere, so the request ends with status 500: \<^verbatim>\<open>OverflowError\<close> by the database
  driver for an integer parameter that does not fit 64 bits, \<^verbatim>\<open>IntegrityError\<close> by a
  commit that breaks a constraint of the table, \<^verbatim>\<open>ValueError\<close> by the geodesy library
  for a point that is not on the globe, and the error of \<^verbatim>\<open>db.refresh\<close> on an object
  whose row is gone.
\<close>

datatype error =
  HTTPException int string
  | RequestValidationError
  | OverflowError
  | IntegrityError
  | ValueError
  | InvalidRequestError

section \<open>Request validation\<close>

text \<open>
  A required field of type \<open>'a\<close>: only a value of the type passes. For a float field
  every float is such a value, \<^verbatim>\<open>nan\<close> and the infinities included.
\<close>

fun required_field :: "'a field_input \<Rightarrow> 'a option" where
  "required_field (Given v) = Some v"
| "required_field Absent = None"
| "required_field Null = None"

text \<open>
  A field of type \<open>'a\<close> with a default, as in \<^verbatim>\<open>name: str = None\<close>: a missing key
  leaves the field unset, a value of the type sets it, and \<^verbatim>\<open>null\<close> is not a value of
  the type. (The handlers call \<^verbatim>\<open>model_dump\<close>, the interface of the version of the
  validation library in which an annotation \<^verbatim>\<open>str\<close> does not admit \<^verbatim>\<open>None\<close>; the
  default itself is not validated.)
\<close>

fun defaulted_field :: "'a field_input \<Rightarrow> 'a option option" where
  "defaulted_field Absent = Some None"
| "defaulted_field (Given v) = Some (Some v)"
| "defaulted_field Null = None"

definition validate_AddressCreate :: "payload \<Rightarrow> error + AddressCreate" where
  "validate_AddressCreate body =
     (case (required_field (payload_name body), required_field (payload_latitude body),
            required_field (payload_longitude body)) of
        (Some n, Some la, Some lo) \<Rightarrow> Inr (AddressCreate n la lo)
      | _ \<Rightarrow> Inl RequestValidationError)"

definition validate_AddressUpdate :: "payload \<Rightarrow> error + AddressUpdate" where
  "validate_AddressUpdate body =
     (case (defaulted_field (payload_name body), defaulted_field (payload_latitude body),
            defaulted_field (payload_longitude body)) of
        (Some n, Some la, Some lo) \<Rightarrow> Inr (AddressUpdate n la lo)
      | _ \<Rightarrow> Inl RequestValidationError)"

section \<open>The store\<close>

text \<open>
  The integers that the database takes as a parameter or holds as a key: those of 64
  bits, signed.
\<close>

definition sqlite_integer :: "int \<Rightarrow> bool" where
  "sqlite_integer i = (- 9223372036854775808 \<le> i \<and> i \<le> 9223372036854775807)"

text \<open>
  \<^verbatim>\<open>db.query(Address).filter(Address.id == address_id).first()\<close>: the first row of that
  key, or \<open>None\<close>. The path parameter \<^verbatim>\<open>address_id: int\<close> is any integer; the driver
  raises \<^verbatim>\<open>OverflowError\<close> when it is given one that does not fit.
\<close>

definition query_first :: "Session \<Rightarrow> int \<Rightarrow> error + Address option" where
  "query_first db address_id =
     (if sqlite_integer address_id then Inr (find (\<lambda>a. id_col a = address_id) db)
      else Inl OverflowError)"

text \<open>
  The key of an inserted row. The column is an integer primary key of a SQLite table
  declared without \<^verbatim>\<open>sqlite_autoincrement\<close>, so the engine gives a new row the largest
  key in the table plus one, and 1 in an empty table.
\<close>

definition next_rowid :: "Session \<Rightarrow> int" where
  "next_rowid db =
     (case db of [] \<Rightarrow> 1 | a # as \<Rightarrow> fold max (map id_col as) (id_col a) + 1)"

text \<open>
  \<^verbatim>\<open>db.refresh(db_address)\<close>: the object is read again from its row, by the key that
  the object has from the table.
\<close>

definition refresh :: "Session \<Rightarrow> int \<Rightarrow> error + Address" where
  "refresh db key =
     (case find (\<lambda>a. id_col a = key) db of
        None \<Rightarrow> Inl InvalidRequestError
      | Some a \<Rightarrow> Inr a)"

text \<open>
  The driver hands \<^verbatim>\<open>nan\<close> to the database as \<^verbatim>\<open>NULL\<close>; every other float is stored
  as it is. A commit that writes \<^verbatim>\<open>NULL\<close> to \<^verbatim>\<open>latitude\<close> or \<^verbatim>\<open>longitude\<close>
  (\<^verbatim>\<open>nullable=False\<close>) raises \<^verbatim>\<open>IntegrityError\<close> and writes nothing.
\<close>

fun stored_as_null :: "float \<Rightarrow> bool" where
  "stored_as_null NaN = True"
| "stored_as_null Infinity = False"
| "stored_as_null MinusInfinity = False"
| "stored_as_null (Finite x) = False"

section \<open>Handlers\<close>

text \<open>
  An item of the dictionary that \<^verbatim>\<open>model_dump\<close> returns: the key with its value.
  \<^verbatim>\<open>setattr(db_address, key, value)\<close> stores the value in the attribute of that name.
\<close>

datatype item = Name string | Latitude float | Longitude float

fun setattr :: "Address \<Rightarrow> item \<Rightarrow> Address" where
  "setattr a (Name v) = a\<lparr>name := Some v\<rparr>"
| "setattr a (Latitude v) = a\<lparr>latitude := Some v\<rparr>"
| "setattr a (Longitude v) = a\<lparr>longitude := Some v\<rparr>"

text \<open>An attribute that the commit cannot write: a coordinate that is stored as \<^verbatim>\<open>NULL\<close>.\<close>

fun violates_not_null :: "item \<Rightarrow> bool" where
  "violates_not_null (Name v) = False"
| "violates_not_null (Latitude v) = stored_as_null v"
| "violates_not_null (Longitude v) = stored_as_null v"

text \<open>\<^verbatim>\<open>address.model_dump(exclude_unset=True)\<close>: the fields that were sent, in field order.\<close>

definition model_dump_exclude_unset :: "AddressUpdate \<Rightarrow> item list" where
  "model_dump_exclude_unset address =
     (case update_name address of None \<Rightarrow> [] | Some v \<Rightarrow> [Name v]) @
     (case update_latitude address of None \<Rightarrow> [] | Some v \<Rightarrow> [Latitude v]) @
     (case update_longitude address of None \<Rightarrow> [] | Some v \<Rightarrow> [Longitude v])"

text \<open>
  \<^verbatim>\<open>
  def create_address(address, db):
      db_address = Address(**address.model_dump())
      db.add(db_address); db.commit(); db.refresh(db_address)
      return db_address
  \<close>
  Each handler returns its result with the session after the call. A handler that
  raises has written nothing.
\<close>

definition create_address :: "AddressCreate \<Rightarrow> Session \<Rightarrow> (error + Address) \<times> Session" where
  "create_address address db =
     (if stored_as_null (create_latitude address) \<or> stored_as_null (create_longitude address)
      then (Inl IntegrityError, db)
      else
        (let new_id = next_rowid db;
             db_address = \<lparr>id_col = new_id, name = Some (create_name address),
                           latitude = Some (create_latitude address),
                           longitude = Some (create_longitude address)\<rparr>;
             db' = db @ [db_address]
         in (refresh db' new_id, db')))"

text \<open>
  \<^verbatim>\<open>
  def update_address(address_id, address, db):
      db_address = db.query(Address).filter(Address.id == address_id).first()
      if not db_address:
          raise HTTPException(status_code=404, detail="Address not found")
      update_data = address.model_dump(exclude_unset=True)
      for key, value in update_data.items():
          setattr(db_address, key, value)
      db.commit(); db.refresh(db_address)
      return db_address
  \<close>
  The commit writes the attributes that were set to the row of the object's key.
\<close>

definition update_address ::
  "int \<Rightarrow> AddressUpdate \<Rightarrow> Session \<Rightarrow> (error + Address) \<times> Session" where
  "update_address address_id address db =
     (case query_first db address_id of
        Inl e \<Rightarrow> (Inl e, db)
      | Inr None \<Rightarrow> (Inl (HTTPException 404 ''Address not found''), db)
      | Inr (Some db_address) \<Rightarrow>
          (let update_data = model_dump_exclude_unset address;
               db_address' = foldl setattr db_address update_data
           in if list_ex violates_not_null update_data then (Inl IntegrityError, db)
              else
                (let db' = map (\<lambda>r. if id_col r = address_id then db_address' else r) db
                 in (refresh db' address_id, db'))))"

text \<open>
  \<^verbatim>\<open>
  def delete_address(address_id, db):
      db_address = db.query(Address).filter(Address.id == address_id).first()
      if not db_address:
          raise HTTPException(status_code=404, detail="Address not found")
      db.delete(db_address); db.commit()
      return {"detail": "Address deleted"}
  \<close>
\<close>

definition delete_address ::
  "int \<Rightarrow> Session \<Rightarrow> (error + (string \<times> string) list) \<times> Session" where
  "delete_address address_id db =
     (case query_first db address_id of
        Inl e \<Rightarrow> (Inl e, db)
      | Inr None \<Rightarrow> (Inl (HTTPException 404 ''Address not found''), db)
      | Inr (Some db_address) \<Rightarrow>
          (Inr [(''detail'', ''Address deleted'')],
           filter (\<lambda>r. id_col r \<noteq> id_col db_address) db))"

text \<open>\<^verbatim>\<open>db.query(Address).all()\<close>: every row, in the order of the table.\<close>

definition query_all :: "Session \<Rightarrow> Address list" where
  "query_all db = db"

text \<open>\<^verbatim>\<open>return db.query(Address).all()\<close>\<close>

definition get_addresses :: "Session \<Rightarrow> Address list" where
  "get_addresses db = query_all db"

text \<open>
  The geodesy library. \<^verbatim>\<open>geodesic(a, b)\<close> makes a point of each of its two tuples
  before it measures, and a point is made of finite coordinates with a latitude from -90
  to 90 only; for anything else the library raises \<^verbatim>\<open>ValueError\<close>. A longitude is not
  bounded. Of a tuple with \<open>None\<close> in it (no row read from the table has one) the
  library takes a missing latitude as 0.0, and refuses a latitude without a longitude.
\<close>

type_synonym point = "float option \<times> float option"

definition normalize_coordinates :: "float \<Rightarrow> float \<Rightarrow> error + real \<times> real" where
  "normalize_coordinates la lo =
     (case (la, lo) of
        (Finite x, Finite y) \<Rightarrow> if \<bar>x\<bar> > 90 then Inl ValueError else Inr (x, y)
      | _ \<Rightarrow> Inl ValueError)"

fun Point :: "point \<Rightarrow> error + real \<times> real" where
  "Point (Some la, Some lo) = normalize_coordinates la lo"
| "Point (Some la, None) = Inl ValueError"
| "Point (None, Some lo) = normalize_coordinates (Finite 0) lo"
| "Point (None, None) = normalize_coordinates (Finite 0) (Finite 0)"

text \<open>
  The measuring itself is a parameter \<open>km\<close>: the distance in kilometres between two
  points of the globe, each a latitude and a longitude.
\<close>

definition geodesic ::
  "(real \<times> real \<Rightarrow> real \<times> real \<Rightarrow> real) \<Rightarrow> point \<Rightarrow> point \<Rightarrow> error + real" where
  "geodesic km a b =
     (case Point a of
        Inl e \<Rightarrow> Inl e
      | Inr p \<Rightarrow> (case Point b of Inl e \<Rightarrow> Inl e | Inr q \<Rightarrow> Inr (km p q)))"

text \<open>
  \<^verbatim>\<open>
  addresses = db.query(Address).all()
  within_distance = [address for address in addresses
      if geodesic((latitude, longitude), (address.latitude, address.longitude)).km <= distance]
  return within_distance
  \<close>
  The comprehension calls the library once for each row, in order, and an error of the
  library ends the handler. The query parameters \<^verbatim>\<open>latitude\<close> and \<^verbatim>\<open>longitude\<close> are
  named \<open>lat\<close> and \<open>lon\<close>, the long names being the attributes of a row; like
  \<^verbatim>\<open>distance\<close> they are floats, of any kind.
\<close>

fun within_distance :: "(point \<Rightarrow> error + real) \<Rightarrow> float \<Rightarrow> Address list \<Rightarrow> error + Address list"
  where
  "within_distance from_reference distance [] = Inr []"
| "within_distance from_reference distance (address # addresses) =
     (case from_reference (latitude address, longitude address) of
        Inl e \<Rightarrow> Inl e
      | Inr d \<Rightarrow>
          (case within_distance from_reference distance addresses of
             Inl e \<Rightarrow> Inl e
           | Inr rest \<Rightarrow> Inr (if float_le (Finite d) distance then address # rest else rest)))"

definition get_addresses_within_distance ::
  "(real \<times> real \<Rightarrow> real \<times> real \<Rightarrow> real) \<Rightarrow> float \<Rightarrow> float \<Rightarrow> float \<Rightarrow> Session
    \<Rightarrow> error + Address list" where
  "get_addresses_within_distance km lat lon distance db =
     (let addresses = query_all db
      in within_distance (geodesic km (Some lat, Some lon)) distance addresses)"

section \<open>The public interface\<close>

text \<open>
  A request body is validated against the request model of the route before the handler
  is called; a body that fails validation never reaches the handler. The log entries of
  the handlers and the serialisation of a returned object by the response model are not
  part of the model.
\<close>

definition post_addresses :: "payload \<Rightarrow> Session \<Rightarrow> (error + Address) \<times> Session" where
  "post_addresses body db =
     (case validate_AddressCreate body of
        Inl e \<Rightarrow> (Inl e, db)
      | Inr address \<Rightarrow> create_address address db)"

definition put_addresses ::
  "int \<Rightarrow> payload \<Rightarrow> Session \<Rightarrow> (error + Address) \<times> Session" where
  "put_addresses address_id body db =
     (case validate_AddressUpdate body of
        Inl e \<Rightarrow> (Inl e, db)
      | Inr address \<Rightarrow> update_address address_id address db)"

text \<open>
  The three writing operations of the interface, and what a client gets back. The two
  reading operations, \<open>get_addresses\<close> and \<open>get_addresses_within_distance\<close>, return a
  list or fail, and write nothing.
\<close>

datatype command = Create payload | Update int payload | Delete int

datatype response = Record Address | Acknowledgement "(string \<times> string) list"

fun execute :: "command \<Rightarrow> Session \<Rightarrow> (error + response) \<times> Session" where
  "execute (Create body) db =
     (case post_addresses body db of (r, db') \<Rightarrow> (map_sum (\<lambda>e. e) Record r, db'))"
| "execute (Update address_id body) db =
     (case put_addresses address_id body db of (r, db') \<Rightarrow> (map_sum (\<lambda>e. e) Record r, db'))"
| "execute (Delete address_id) db =
     (case delete_address address_id db of
        (r, db') \<Rightarrow> (map_sum (\<lambda>e. e) Acknowledgement r, db'))"

text \<open>The store after a sequence of commands.\<close>

fun run :: "command list \<Rightarrow> Session \<Rightarrow> Session" where
  "run [] db = db"
| "run (c # cs) db = run cs (snd (execute c db))"

text \<open>The ids of the records that the successful creations of a sequence return, in order.\<close>

fun assigned_id :: "command \<Rightarrow> Session \<Rightarrow> int list" where
  "assigned_id (Create body) db =
     (case fst (post_addresses body db) of Inr a \<Rightarrow> [id_col a] | Inl e \<Rightarrow> [])"
| "assigned_id (Update address_id body) db = []"
| "assigned_id (Delete address_id) db = []"

fun assigned_ids :: "command list \<Rightarrow> Session \<Rightarrow> int list" where
  "assigned_ids [] db = []"
| "assigned_ids (c # cs) db = assigned_id c db @ assigned_ids cs (snd (execute c db))"

text \<open>The properties of a stored record that the invariants below speak of.\<close>

definition coordinates_not_null :: "Address \<Rightarrow> bool" where
  "coordinates_not_null a = (latitude a \<noteq> None \<and> longitude a \<noteq> None)"

definition nothing_null :: "Address \<Rightarrow> bool" where
  "nothing_null a = (name a \<noteq> None \<and> latitude a \<noteq> None \<and> longitude a \<noteq> None)"

text \<open>
  A tuple of which the geodesy library makes a point, and the test of the distance query
  on a row: the library measures the row from the reference point and the distance is at
  most the one asked for.
\<close>

definition on_globe :: "point \<Rightarrow> bool" where
  "on_globe p = (case Point p of Inl e \<Rightarrow> False | Inr q \<Rightarrow> True)"

definition row_on_globe :: "Address \<Rightarrow> bool" where
  "row_on_globe a = on_globe (latitude a, longitude a)"

definition near :: "(real \<times> real \<Rightarrow> real \<times> real \<Rightarrow> real) \<Rightarrow> point \<Rightarrow> float \<Rightarrow> Address \<Rightarrow> bool" where
  "near km reference distance a =
     (case geodesic km reference (latitude a, longitude a) of
        Inl e \<Rightarrow> False
      | Inr d \<Rightarrow> float_le (Finite d) distance)"

text \<open>
  A measure for the examples, in place of the library's: the sum of the differences of
  the latitudes and of the longitudes, at 111 km to the degree.
\<close>

definition example_km :: "real \<times> real \<Rightarrow> real \<times> real \<Rightarrow> real" where
  "example_km p q = 111 * (\<bar>fst p - fst q\<bar> + \<bar>snd p - snd q\<bar>)"

section \<open>Lookups\<close>

lemma query_first_None:
  "query_first db i = Inr None \<longleftrightarrow> sqlite_integer i \<and> i \<notin> id_col ` set db"
  by (auto simp: query_first_def find_None_iff)

lemma query_first_Some:
  "query_first db i = Inr (Some a) \<Longrightarrow> a \<in> set db \<and> id_col a = i \<and> sqlite_integer i"
  by (auto simp: query_first_def find_Some_iff split: if_splits)

lemma query_first_overflow:
  "query_first db i = Inl e \<longleftrightarrow> \<not> sqlite_integer i \<and> e = OverflowError"
  by (auto simp: query_first_def)

lemma query_first_found:
  "sqlite_integer i \<Longrightarrow> i \<in> id_col ` set db \<Longrightarrow>
   \<exists>a. query_first db i = Inr (Some a) \<and> a \<in> set db \<and> id_col a = i"
proof -
  assume r: "sqlite_integer i" and m: "i \<in> id_col ` set db"
  from m have "find (\<lambda>a. id_col a = i) db \<noteq> None"
    by (auto simp: find_None_iff)
  then obtain a where a: "find (\<lambda>a. id_col a = i) db = Some a" by blast
  with r have "query_first db i = Inr (Some a)" by (simp add: query_first_def)
  with query_first_Some [of db i a] show ?thesis by blast
qed

lemma next_rowid_fresh: "r \<in> set db \<Longrightarrow> id_col r < next_rowid db"
proof (cases db)
  case Nil
  assume "r \<in> set db"
  with Nil show ?thesis by simp
next
  case (Cons a as)
  assume r: "r \<in> set db"
  have "fold max (map id_col as) (id_col a) = Max (set (id_col a # map id_col as))"
    by (rule Max.set_eq_fold [symmetric])
  then have "next_rowid db = Max (set (map id_col db)) + 1"
    unfolding Cons next_rowid_def by simp
  moreover have "id_col r \<le> Max (set (map id_col db))"
    using r by (intro Max_ge) auto
  ultimately show ?thesis by simp
qed

lemma next_rowid_not_in: "next_rowid db \<notin> id_col ` set db"
  using next_rowid_fresh by fastforce

lemma refresh_append:
  "i \<notin> id_col ` set db \<Longrightarrow> id_col a = i \<Longrightarrow> refresh (db @ [a]) i = Inr a"
  unfolding refresh_def by (induction db) auto

lemma refresh_map:
  "find (\<lambda>r. id_col r = i) db = Some a \<Longrightarrow> id_col a' = i \<Longrightarrow>
   refresh (map (\<lambda>r. if id_col r = i then a' else r) db) i = Inr a'"
  unfolding refresh_def by (induction db) (auto split: if_splits)

lemma foldl_setattr_id: "id_col (foldl setattr a items) = id_col a"
proof (induction items arbitrary: a)
  case Nil
  show ?case by simp
next
  case (Cons x xs)
  have "id_col (setattr a x) = id_col a" by (cases x) simp_all
  with Cons show ?case by simp
qed


lemma stored_as_null_iff: "stored_as_null v \<longleftrightarrow> v = NaN"
  by (cases v) simp_all


lemma create_address_eq:
  "la \<noteq> NaN \<Longrightarrow> lo \<noteq> NaN \<Longrightarrow>
   create_address (AddressCreate n la lo) db =
     (Inr \<lparr>id_col = next_rowid db, name = Some n, latitude = Some la, longitude = Some lo\<rparr>,
      db @ [\<lparr>id_col = next_rowid db, name = Some n, latitude = Some la, longitude = Some lo\<rparr>])"
  by (simp add: create_address_def Let_def refresh_append next_rowid_not_in stored_as_null_iff)

lemma create_address_nan:
  "la = NaN \<or> lo = NaN \<Longrightarrow>
   create_address (AddressCreate n la lo) db = (Inl IntegrityError, db)"
  by (auto simp: create_address_def)

lemma update_address_eq:
  assumes found: "query_first db address_id = Inr (Some a)"
    and ok: "\<not> list_ex violates_not_null (model_dump_exclude_unset address)"
  shows "update_address address_id address db =
     (Inr (foldl setattr a (model_dump_exclude_unset address)),
      map (\<lambda>r. if id_col r = address_id
                then foldl setattr a (model_dump_exclude_unset address) else r) db)"
proof -
  from found have f: "find (\<lambda>r. id_col r = address_id) db = Some a"
    by (simp add: query_first_def split: if_splits)
  have "id_col (foldl setattr a (model_dump_exclude_unset address)) = address_id"
    using found by (simp add: foldl_setattr_id query_first_Some)
  from refresh_map [OF f this] show ?thesis
    using found ok by (simp add: update_address_def Let_def)
qed

lemma update_address_nan:
  assumes found: "query_first db address_id = Inr (Some a)"
    and bad: "list_ex violates_not_null (model_dump_exclude_unset address)"
  shows "update_address address_id address db = (Inl IntegrityError, db)"
  using found bad by (simp add: update_address_def Let_def)

section \<open>What a command does to the store\<close>

lemma post_addresses_cases:
  "(\<exists>e. post_addresses body db = (Inl e, db)) \<or>
   (\<exists>n la lo. post_addresses body db =
      (Inr \<lparr>id_col = next_rowid db, name = Some n, latitude = Some la, longitude = Some lo\<rparr>,
       db @ [\<lparr>id_col = next_rowid db, name = Some n, latitude = Some la,
               longitude = Some lo\<rparr>]))"
proof (cases "validate_AddressCreate body")
  case (Inl e)
  then show ?thesis by (simp add: post_addresses_def)
next
  case (Inr address)
  obtain n la lo where address: "address = AddressCreate n la lo" by (cases address)
  show ?thesis
  proof (cases "la = NaN \<or> lo = NaN")
    case True
    with Inr address show ?thesis
      by (simp add: post_addresses_def create_address_nan)
  next
    case False
    with Inr address show ?thesis
      by (auto simp: post_addresses_def create_address_eq)
  qed
qed

lemma update_address_cases:
  "(\<exists>e. update_address address_id address db = (Inl e, db)) \<or>
   (\<exists>a. a \<in> set db \<and> id_col a = address_id \<and>
      update_address address_id address db =
        (Inr (foldl setattr a (model_dump_exclude_unset address)),
         map (\<lambda>r. if id_col r = address_id
                   then foldl setattr a (model_dump_exclude_unset address) else r) db))"
proof (cases "query_first db address_id")
  case (Inl e)
  then show ?thesis by (simp add: update_address_def)
next
  case (Inr found)
  show ?thesis
  proof (cases found)
    case None
    with Inr show ?thesis by (simp add: update_address_def)
  next
    case (Some a)
    with Inr have q: "query_first db address_id = Inr (Some a)" by simp
    show ?thesis
    proof (cases "list_ex violates_not_null (model_dump_exclude_unset address)")
      case True
      with update_address_nan [OF q] show ?thesis by blast
    next
      case False
      with update_address_eq [OF q] query_first_Some [OF q] show ?thesis by blast
    qed
  qed
qed

lemma update_address_ids:
  "map id_col (snd (update_address address_id address db)) = map id_col db"
  using update_address_cases [of address_id address db]
  by (auto simp: foldl_setattr_id)

lemma put_addresses_ids:
  "map id_col (snd (put_addresses address_id body db)) = map id_col db"
  by (simp add: put_addresses_def update_address_ids split: sum.splits)

lemma delete_address_cases:
  "(\<not> sqlite_integer address_id \<longrightarrow>
      delete_address address_id db = (Inl OverflowError, db)) \<and>
   (sqlite_integer address_id \<and> address_id \<notin> id_col ` set db \<longrightarrow>
      delete_address address_id db = (Inl (HTTPException 404 ''Address not found''), db)) \<and>
   (sqlite_integer address_id \<and> address_id \<in> id_col ` set db \<longrightarrow>
      delete_address address_id db =
        (Inr [(''detail'', ''Address deleted'')], filter (\<lambda>r. id_col r \<noteq> address_id) db))"
proof -
  have "delete_address address_id db = (Inl OverflowError, db)" if "\<not> sqlite_integer address_id"
    using that by (simp add: delete_address_def query_first_def)
  moreover have "delete_address address_id db =
      (Inl (HTTPException 404 ''Address not found''), db)"
    if "sqlite_integer address_id" "address_id \<notin> id_col ` set db"
  proof -
    from that have "query_first db address_id = Inr None" by (simp add: query_first_None)
    then show ?thesis by (simp add: delete_address_def)
  qed
  moreover have "delete_address address_id db =
      (Inr [(''detail'', ''Address deleted'')], filter (\<lambda>r. id_col r \<noteq> address_id) db)"
    if "sqlite_integer address_id" "address_id \<in> id_col ` set db"
  proof -
    from query_first_found [OF that] obtain a
      where "query_first db address_id = Inr (Some a)" "id_col a = address_id" by blast
    then show ?thesis by (simp add: delete_address_def)
  qed
  ultimately show ?thesis by blast
qed

lemma delete_address_store:
  "snd (delete_address address_id db) = db \<or>
   snd (delete_address address_id db) = filter (\<lambda>r. id_col r \<noteq> address_id) db"
  using delete_address_cases [of address_id db]
  by (cases "sqlite_integer address_id"; cases "address_id \<in> id_col ` set db") auto

lemma execute_ids:
  "id_col ` set (snd (execute c db)) \<subseteq> id_col ` set db \<union> set (assigned_id c db)"
proof (cases c)
  case (Create body)
  show ?thesis
    using post_addresses_cases [of body db] unfolding Create by auto
next
  case (Update address_id body)
  have "set (map id_col (snd (put_addresses address_id body db))) = set (map id_col db)"
    by (simp only: put_addresses_ids)
  then show ?thesis
    unfolding Update by (simp add: split_beta)
next
  case (Delete address_id)
  show ?thesis
    using delete_address_store [of address_id db] unfolding Delete
    by (auto simp: split_beta)
qed

lemma run_ids:
  "id_col ` set (run cs db) \<subseteq> id_col ` set db \<union> set (assigned_ids cs db)"
proof (induction cs arbitrary: db)
  case Nil
  show ?case by simp
next
  case (Cons c cs)
  from Cons [of "snd (execute c db)"] execute_ids [of c db]
  show ?case by auto
qed

lemma execute_distinct:
  assumes "distinct (map id_col db)"
  shows "distinct (map id_col (snd (execute c db)))"
proof (cases c)
  case (Create body)
  show ?thesis
    using post_addresses_cases [of body db] assms next_rowid_not_in [of db]
    unfolding Create by auto
next
  case (Update address_id body)
  show ?thesis
    unfolding Update using assms by (simp add: split_beta put_addresses_ids)
next
  case (Delete address_id)
  show ?thesis
    using delete_address_store [of address_id db] assms unfolding Delete
    by (auto simp: distinct_map_filter split_beta)
qed

lemma run_distinct:
  "distinct (map id_col db) \<Longrightarrow> distinct (map id_col (run cs db))"
  by (induction cs arbitrary: db) (simp_all add: execute_distinct)

lemma assigned_id_fresh: "set (assigned_id c db) \<inter> id_col ` set db = {}"
proof (cases c)
  case (Create body)
  show ?thesis
    using post_addresses_cases [of body db]
    unfolding Create by (auto dest!: next_rowid_fresh)
qed simp_all

lemma foldl_setattr_preserves:
  assumes step: "\<And>a x. P a \<Longrightarrow> P (setattr a x)"
  shows "P a \<Longrightarrow> P (foldl setattr a items)"
  by (induction items arbitrary: a) (simp_all add: step)

lemma update_address_preserves:
  assumes step: "\<And>a x. P a \<Longrightarrow> P (setattr a x)"
    and inv: "list_all P db"
  shows "list_all P (snd (update_address address_id address db))"
proof -
  have "P (foldl setattr a (model_dump_exclude_unset address))" if "a \<in> set db" for a
  proof -
    from that inv have "P a" by (simp add: list_all_iff)
    then show ?thesis
      using step by (simp add: foldl_setattr_preserves [where P = P])
  qed
  with inv update_address_cases [of address_id address db] show ?thesis
    by (auto simp: list_all_iff)
qed

lemma execute_preserves:
  assumes step: "\<And>a x. P a \<Longrightarrow> P (setattr a x)"
    and new: "\<And>i n la lo. P \<lparr>id_col = i, name = Some n, latitude = Some la, longitude = Some lo\<rparr>"
    and inv: "list_all P db"
  shows "list_all P (snd (execute c db))"
proof (cases c)
  case (Create body)
  show ?thesis
    using post_addresses_cases [of body db] inv new unfolding Create by auto
next
  case (Update address_id body)
  show ?thesis
    unfolding Update using inv update_address_preserves [where P = P, OF step inv]
    by (simp add: split_beta put_addresses_def split: sum.splits)
next
  case (Delete address_id)
  show ?thesis
    using delete_address_store [of address_id db] inv unfolding Delete
    by (auto simp: list_all_iff split_beta)
qed

lemma run_preserves:
  assumes step: "\<And>a x. P a \<Longrightarrow> P (setattr a x)"
    and new: "\<And>i n la lo. P \<lparr>id_col = i, name = Some n, latitude = Some la, longitude = Some lo\<rparr>"
  shows "list_all P db \<Longrightarrow> list_all P (run cs db)"
proof (induction cs arbitrary: db)
  case Nil
  then show ?case by simp
next
  case (Cons c cs)
  from Cons.prems have "list_all P (snd (execute c db))"
    using step new by (simp add: execute_preserves [where P = P])
  then show ?case by (simp add: Cons.IH)
qed

lemma setattr_coordinates: "coordinates_not_null a \<Longrightarrow> coordinates_not_null (setattr a x)"
  by (cases x) (simp_all add: coordinates_not_null_def)

lemma setattr_nothing_null: "nothing_null a \<Longrightarrow> nothing_null (setattr a x)"
  by (cases x) (simp_all add: nothing_null_def)

lemma execute_ids_kept:
  "(case c of
      Create body \<Rightarrow> prefix db (snd (execute c db))
    | Update address_id body \<Rightarrow> map id_col (snd (execute c db)) = map id_col db
    | Delete address_id \<Rightarrow> subseq (snd (execute c db)) db)"
proof (cases c)
  case (Create body)
  show ?thesis
    using post_addresses_cases [of body db] unfolding Create by auto
next
  case (Update address_id body)
  show ?thesis unfolding Update by (simp add: split_beta put_addresses_ids)
next
  case (Delete address_id)
  show ?thesis
    using delete_address_store [of address_id db] unfolding Delete
    by (auto simp: split_beta)
qed

section \<open>The comprehension of the distance query\<close>

lemma within_distance_Inr:
  "within_distance f distance xs = Inr r \<longleftrightarrow>
     list_all (\<lambda>a. \<exists>d. f (latitude a, longitude a) = Inr d) xs \<and>
     r = filter (\<lambda>a. case f (latitude a, longitude a) of
                        Inl e \<Rightarrow> False | Inr d \<Rightarrow> float_le (Finite d) distance) xs"
proof (induction xs arbitrary: r)
  case Nil
  show ?case by auto
next
  case (Cons a xs)
  show ?case
  proof (cases "f (latitude a, longitude a)")
    case (Inl e)
    then show ?thesis by simp
  next
    case (Inr d)
    show ?thesis
    proof (cases "within_distance f distance xs")
      case (Inl e)
      with Cons [of "[]"] Cons [of "filter (\<lambda>a. case f (latitude a, longitude a) of
                        Inl e \<Rightarrow> False | Inr d \<Rightarrow> float_le (Finite d) distance) xs"]
        \<open>f (latitude a, longitude a) = Inr d\<close>
      show ?thesis by auto
    next
      case (Inr rest)
      with Cons [of rest] \<open>f (latitude a, longitude a) = Inr d\<close>
      show ?thesis by auto
    qed
  qed
qed

lemma geodesic_Inr:
  "(\<exists>d. geodesic km p q = Inr d) \<longleftrightarrow> on_globe p \<and> on_globe q"
  by (auto simp: geodesic_def on_globe_def split: sum.splits)

lemma get_addresses_within_distance_Inr:
  "get_addresses_within_distance km lat lon distance db = Inr r \<longleftrightarrow>
     list_all (\<lambda>a. on_globe (Some lat, Some lon) \<and> row_on_globe a) (get_addresses db) \<and>
     r = filter (near km (Some lat, Some lon) distance) (get_addresses db)"
  unfolding get_addresses_within_distance_def Let_def within_distance_Inr
    geodesic_Inr near_def get_addresses_def row_on_globe_def
  by simp

lemma Point_error: "Point p = Inl e \<Longrightarrow> e = ValueError"
  by (cases p rule: Point.cases)
    (auto simp: normalize_coordinates_def split: float.splits if_splits)

lemma geodesic_error: "geodesic km p q = Inl e \<Longrightarrow> e = ValueError"
  by (auto simp: geodesic_def split: sum.splits dest: Point_error)

lemma within_distance_error:
  "within_distance f distance xs = Inl e \<Longrightarrow> \<exists>a\<in>set xs. f (latitude a, longitude a) = Inl e"
  by (induction xs) (auto split: sum.splits)

lemma get_addresses_within_distance_error:
  "get_addresses_within_distance km lat lon distance db = Inl e \<Longrightarrow> e = ValueError"
  unfolding get_addresses_within_distance_def Let_def
  by (auto dest!: within_distance_error geodesic_error)

lemma get_addresses_within_distance_raises:
  assumes "\<not> list_all (\<lambda>a. on_globe (Some lat, Some lon) \<and> row_on_globe a) (get_addresses db)"
  shows "get_addresses_within_distance km lat lon distance db = Inl ValueError"
proof (cases "get_addresses_within_distance km lat lon distance db")
  case (Inl e)
  with get_addresses_within_distance_error [OF Inl] show ?thesis by simp
next
  case (Inr r)
  with assms show ?thesis by (simp add: get_addresses_within_distance_Inr)
qed

lemma count_list_filter_le: "count_list (filter P xs) a \<le> count_list xs a"
  by (induction xs) auto

section \<open>Update of an unknown id\<close>

text \<open>
  C3, as the code behaves. An update of an id that no row of the store has leaves the
  store as it was. When the id is an integer of 64 bits, the update fails with the HTTP
  error of status 404 and detail "Address not found"; when it is not, the lookup fails
  in the database driver with \<open>OverflowError\<close>.
\<close>

theorem update_address_unknown_id:
  "address_id \<notin> id_col ` set db \<Longrightarrow>
   snd (update_address address_id address db) = db \<and>
   (sqlite_integer address_id \<longrightarrow>
      update_address address_id address db =
        (Inl (HTTPException 404 ''Address not found''), db)) \<and>
   (\<not> sqlite_integer address_id \<longrightarrow>
      update_address address_id address db = (Inl OverflowError, db))"
proof -
  assume absent: "address_id \<notin> id_col ` set db"
  have "update_address address_id address db =
      (Inl (HTTPException 404 ''Address not found''), db)" if "sqlite_integer address_id"
  proof -
    from that absent have "query_first db address_id = Inr None"
      by (simp add: query_first_None)
    then show ?thesis by (simp add: update_address_def)
  qed
  moreover have "update_address address_id address db = (Inl OverflowError, db)"
    if "\<not> sqlite_integer address_id"
    using that by (simp add: update_address_def query_first_def)
  ultimately show ?thesis by (cases "sqlite_integer address_id") simp_all
qed

theorem update_address_unknown_id_witness:
  "(2::int) \<notin> id_col ` set [\<lparr>id_col = 1, name = Some ''Home'', latitude = Some (Finite 40),
                               longitude = Some (Finite (-73))\<rparr>] \<and>
   sqlite_integer 2 \<and>
   update_address 2 (AddressUpdate None (Some (Finite 41)) None)
     [\<lparr>id_col = 1, name = Some ''Home'', latitude = Some (Finite 40),
       longitude = Some (Finite (-73))\<rparr>] =
     (Inl (HTTPException 404 ''Address not found''),
      [\<lparr>id_col = 1, name = Some ''Home'', latitude = Some (Finite 40),
         longitude = Some (Finite (-73))\<rparr>]) \<and>
   (-9223372036854775809::int) \<notin> id_col ` set [\<lparr>id_col = 1, name = Some ''Home'',
      latitude = Some (Finite 40), longitude = Some (Finite (-73))\<rparr>] \<and>
   \<not> sqlite_integer (-9223372036854775809) \<and>
   update_address (-9223372036854775809) (AddressUpdate None (Some (Finite 41)) None)
     [\<lparr>id_col = 1, name = Some ''Home'', latitude = Some (Finite 40),
       longitude = Some (Finite (-73))\<rparr>] =
     (Inl OverflowError,
      [\<lparr>id_col = 1, name = Some ''Home'', latitude = Some (Finite 40),
         longitude = Some (Finite (-73))\<rparr>])"
proof -
  let ?home = "\<lparr>id_col = 1, name = Some ''Home'', latitude = Some (Finite 40),
                 longitude = Some (Finite (-73))\<rparr>"
  have a: "(2::int) \<notin> id_col ` set [?home]" by simp
  have b: "sqlite_integer 2" by (simp add: sqlite_integer_def)
  have c: "(-9223372036854775809::int) \<notin> id_col ` set [?home]" by simp
  have d: "\<not> sqlite_integer (-9223372036854775809)" by (simp add: sqlite_integer_def)
  from update_address_unknown_id [OF a, of "AddressUpdate None (Some (Finite 41)) None"]
    update_address_unknown_id [OF c, of "AddressUpdate None (Some (Finite 41)) None"]
    a b c d
  show ?thesis by simp
qed

text \<open>
  C3 as stated fails: not every id that the store lacks is answered with status 404. The
  id 9223372036854775808 is in no store, and an update of it ends in the driver's
  \<open>OverflowError\<close>.
\<close>

theorem update_address_big_id:
  "(9223372036854775808::int) \<notin> id_col ` set [\<lparr>id_col = 1, name = Some ''Home'',
      latitude = Some (Finite 40), longitude = Some (Finite (-73))\<rparr>] \<and>
   update_address 9223372036854775808 (AddressUpdate None (Some (Finite 41)) None)
     [\<lparr>id_col = 1, name = Some ''Home'', latitude = Some (Finite 40),
       longitude = Some (Finite (-73))\<rparr>] =
     (Inl OverflowError,
      [\<lparr>id_col = 1, name = Some ''Home'', latitude = Some (Finite 40),
         longitude = Some (Finite (-73))\<rparr>]) \<and>
   fst (update_address 9223372036854775808 (AddressUpdate None (Some (Finite 41)) None)
     [\<lparr>id_col = 1, name = Some ''Home'', latitude = Some (Finite 40),
       longitude = Some (Finite (-73))\<rparr>]) \<noteq>
     Inl (HTTPException 404 ''Address not found'')"
  by (simp add: update_address_def query_first_def sqlite_integer_def)

section \<open>Partial update\<close>



section \<open>Creation\<close>




section \<open>Assignment of ids\<close>

text \<open>
  C6, as the store behaves. After any sequence of creations, updates and deletions on a
  store whose ids are pairwise distinct, the ids in the store are pairwise distinct, and
  the id that a creation is then given is the id of no record in the store at that
  moment.
\<close>

theorem ids_distinct_in_store:
  "distinct (map id_col db) \<Longrightarrow>
   distinct (map id_col (run cs db)) \<and>
   set (assigned_id c (run cs db)) \<inter> id_col ` set (run cs db) = {}"
  by (simp add: run_distinct assigned_id_fresh)

theorem ids_distinct_in_store_witness:
  "distinct (map id_col []) \<and>
   distinct (map id_col
     (run [Create (Payload (Given ''Home'') (Given (Finite 40)) (Given (Finite (-73)))),
           Create (Payload (Given ''Work'') (Given (Finite 41)) (Given (Finite (-74)))),
           Delete 1] [])) \<and>
   set (assigned_id (Create (Payload (Given ''Gym'') (Given (Finite 0)) (Given (Finite 0))))
     (run [Create (Payload (Given ''Home'') (Given (Finite 40)) (Given (Finite (-73)))),
           Create (Payload (Given ''Work'') (Given (Finite 41)) (Given (Finite (-74)))),
           Delete 1] [])) \<inter>
   id_col ` set (run [Create (Payload (Given ''Home'') (Given (Finite 40)) (Given (Finite (-73)))),
           Create (Payload (Given ''Work'') (Given (Finite 41)) (Given (Finite (-74)))),
           Delete 1] []) = {}"
  using ids_distinct_in_store [of "[]"
      "[Create (Payload (Given ''Home'') (Given (Finite 40)) (Given (Finite (-73)))),
        Create (Payload (Given ''Work'') (Given (Finite 41)) (Given (Finite (-74)))),
        Delete 1]"
      "Create (Payload (Given ''Gym'') (Given (Finite 0)) (Given (Finite 0)))"]
  by simp

text \<open>
  C6 as stated fails: the ids given to created records are not unique over a history with
  a deletion. In an empty store, create a record (it gets id 1), delete id 1, create
  another record: it gets id 1 again.
\<close>

theorem id_reused_after_delete:
  "assigned_ids
     [Create (Payload (Given ''Home'') (Given (Finite 40)) (Given (Finite (-73)))), Delete 1,
      Create (Payload (Given ''Work'') (Given (Finite 41)) (Given (Finite (-74))))] [] = [1, 1] \<and>
   \<not> distinct (assigned_ids
     [Create (Payload (Given ''Home'') (Given (Finite 40)) (Given (Finite (-73)))), Delete 1,
      Create (Payload (Given ''Work'') (Given (Finite 41)) (Given (Finite (-74))))] [])"
  by (simp add: post_addresses_def validate_AddressCreate_def create_address_eq next_rowid_def
      delete_address_def query_first_def sqlite_integer_def)

section \<open>Deletion\<close>

text \<open>
  C5, as the code behaves. A deletion of an id that no row has leaves the store as it
  was; it fails with the HTTP error of status 404 when the id is an integer of 64 bits
  (and in the database driver when it is not). A deletion of an id that a row has returns
  the acknowledgement \<open>{detail: Address deleted}\<close> and removes the row of that id,
  leaving the other rows as they were; no record of that id is listed afterwards, neither
  at once nor after any further commands, as long as no later creation is given that id.
\<close>

theorem delete_address_removes:
  "(address_id \<notin> id_col ` set db \<longrightarrow> snd (delete_address address_id db) = db) \<and>
   (sqlite_integer address_id \<and> address_id \<notin> id_col ` set db \<longrightarrow>
      delete_address address_id db = (Inl (HTTPException 404 ''Address not found''), db)) \<and>
   (\<not> sqlite_integer address_id \<longrightarrow>
      delete_address address_id db = (Inl OverflowError, db)) \<and>
   (sqlite_integer address_id \<and> address_id \<in> id_col ` set db \<longrightarrow>
      delete_address address_id db =
        (Inr [(''detail'', ''Address deleted'')], filter (\<lambda>r. id_col r \<noteq> address_id) db) \<and>
      (address_id \<notin> set (assigned_ids cs (snd (delete_address address_id db))) \<longrightarrow>
       address_id \<notin> id_col ` set (get_addresses (run cs (snd (delete_address address_id db))))))"
proof -
  have absent: "address_id \<notin> id_col ` set (get_addresses (run cs (filter (\<lambda>r. id_col r \<noteq> address_id) db)))"
    if "address_id \<notin> set (assigned_ids cs (filter (\<lambda>r. id_col r \<noteq> address_id) db))"
  proof -
    have "address_id \<notin> id_col ` set (filter (\<lambda>r. id_col r \<noteq> address_id) db)" by auto
    with that run_ids [of cs "filter (\<lambda>r. id_col r \<noteq> address_id) db"]
    show ?thesis by (auto simp: get_addresses_def query_all_def)
  qed
  have unchanged: "snd (delete_address address_id db) = db"
    if "address_id \<notin> id_col ` set db"
    using that delete_address_cases [of address_id db]
    by (cases "sqlite_integer address_id") simp_all
  show ?thesis
  proof (cases "sqlite_integer address_id \<and> address_id \<in> id_col ` set db")
    case True
    with delete_address_cases [of address_id db]
    have "delete_address address_id db =
        (Inr [(''detail'', ''Address deleted'')], filter (\<lambda>r. id_col r \<noteq> address_id) db)"
      by simp
    with True absent show ?thesis by simp
  next
    case False
    with delete_address_cases [of address_id db] unchanged show ?thesis by blast
  qed
qed

theorem delete_address_removes_witness:
  "(2::int) \<notin> id_col ` set [\<lparr>id_col = 1, name = Some ''Home'', latitude = Some (Finite 40),
                               longitude = Some (Finite (-73))\<rparr>] \<and>
   sqlite_integer 2 \<and>
   delete_address 2
     [\<lparr>id_col = 1, name = Some ''Home'', latitude = Some (Finite 40),
       longitude = Some (Finite (-73))\<rparr>] =
     (Inl (HTTPException 404 ''Address not found''),
      [\<lparr>id_col = 1, name = Some ''Home'', latitude = Some (Finite 40),
         longitude = Some (Finite (-73))\<rparr>]) \<and>
   \<not> sqlite_integer 9223372036854775808 \<and>
   delete_address 9223372036854775808
     [\<lparr>id_col = 1, name = Some ''Home'', latitude = Some (Finite 40),
       longitude = Some (Finite (-73))\<rparr>] =
     (Inl OverflowError,
      [\<lparr>id_col = 1, name = Some ''Home'', latitude = Some (Finite 40),
         longitude = Some (Finite (-73))\<rparr>]) \<and>
   sqlite_integer 1 \<and>
   (1::int) \<in> id_col ` set [\<lparr>id_col = 1, name = Some ''Home'', latitude = Some (Finite 40),
                               longitude = Some (Finite (-73))\<rparr>,
                             \<lparr>id_col = 2, name = Some ''Work'', latitude = Some (Finite 41),
                               longitude = Some (Finite (-74))\<rparr>] \<and>
   delete_address 1
     [\<lparr>id_col = 1, name = Some ''Home'', latitude = Some (Finite 40),
       longitude = Some (Finite (-73))\<rparr>,
      \<lparr>id_col = 2, name = Some ''Work'', latitude = Some (Finite 41),
       longitude = Some (Finite (-74))\<rparr>] =
     (Inr [(''detail'', ''Address deleted'')],
      [\<lparr>id_col = 2, name = Some ''Work'', latitude = Some (Finite 41),
         longitude = Some (Finite (-74))\<rparr>]) \<and>
   (1::int) \<notin> set (assigned_ids
     [Create (Payload (Given ''Gym'') (Given (Finite 0)) (Given (Finite 0)))]
     (snd (delete_address 1
       [\<lparr>id_col = 1, name = Some ''Home'', latitude = Some (Finite 40),
         longitude = Some (Finite (-73))\<rparr>,
        \<lparr>id_col = 2, name = Some ''Work'', latitude = Some (Finite 41),
         longitude = Some (Finite (-74))\<rparr>]))) \<and>
   (1::int) \<notin> id_col ` set (get_addresses
     (run [Create (Payload (Given ''Gym'') (Given (Finite 0)) (Given (Finite 0)))]
       (snd (delete_address 1
         [\<lparr>id_col = 1, name = Some ''Home'', latitude = Some (Finite 40),
           longitude = Some (Finite (-73))\<rparr>,
          \<lparr>id_col = 2, name = Some ''Work'', latitude = Some (Finite 41),
           longitude = Some (Finite (-74))\<rparr>]))))"
proof -
  let ?home = "\<lparr>id_col = 1, name = Some ''Home'', latitude = Some (Finite 40),
                 longitude = Some (Finite (-73))\<rparr>"
  let ?work = "\<lparr>id_col = 2, name = Some ''Work'', latitude = Some (Finite 41),
                 longitude = Some (Finite (-74))\<rparr>"
  let ?gym = "Create (Payload (Given ''Gym'') (Given (Finite 0)) (Given (Finite 0)))"
  have unknown: "(2::int) \<notin> id_col ` set [?home]" by simp
  have r2: "sqlite_integer 2" and r1: "sqlite_integer 1"
    and big: "\<not> sqlite_integer 9223372036854775808"
    by (simp_all add: sqlite_integer_def)
  have known: "(1::int) \<in> id_col ` set [?home, ?work]" by simp
  have del: "snd (delete_address 1 [?home, ?work]) = [?work]"
    by (simp add: delete_address_def query_first_def sqlite_integer_def)
  have later: "(1::int) \<notin> set (assigned_ids [?gym] (snd (delete_address 1 [?home, ?work])))"
    unfolding del
    by (simp add: post_addresses_def validate_AddressCreate_def create_address_eq next_rowid_def)
  from delete_address_removes [of 2 "[?home]" "[]"] unknown r2
  have a: "delete_address 2 [?home] = (Inl (HTTPException 404 ''Address not found''), [?home])"
    by blast
  from delete_address_removes [of 9223372036854775808 "[?home]" "[]"] big
  have o: "delete_address 9223372036854775808 [?home] = (Inl OverflowError, [?home])"
    by blast
  from delete_address_removes [of 1 "[?home, ?work]" "[?gym]"] known later r1
  have b: "delete_address 1 [?home, ?work] =
        (Inr [(''detail'', ''Address deleted'')], filter (\<lambda>r. id_col r \<noteq> 1) [?home, ?work])"
    and c: "(1::int) \<notin> id_col ` set (get_addresses (run [?gym] (snd (delete_address 1 [?home, ?work]))))"
    by blast+
  from b have b': "delete_address 1 [?home, ?work] =
        (Inr [(''detail'', ''Address deleted'')], [?work])" by simp
  from unknown r2 a big o r1 known b' later c show ?thesis by blast
qed

text \<open>
  C5 as stated fails in two places. A deleted record is not absent from every later list:
  delete the only record, of id 1, and create a record with the same three values; the
  store gives it id 1, and the list of all addresses holds the deleted record again. And
  not every id that the store lacks is answered with status 404: the deletion of
  9223372036854775808 ends in the driver's \<open>OverflowError\<close>.
\<close>

theorem deleted_id_listed_again:
  "\<lparr>id_col = 1, name = Some ''Home'', latitude = Some (Finite 40),
     longitude = Some (Finite (-73))\<rparr> \<in>
     set (get_addresses
       (run [Create (Payload (Given ''Home'') (Given (Finite 40)) (Given (Finite (-73))))]
       (snd (delete_address 1
          [\<lparr>id_col = 1, name = Some ''Home'', latitude = Some (Finite 40),
             longitude = Some (Finite (-73))\<rparr>])))) \<and>
   (9223372036854775808::int) \<notin> id_col ` set [\<lparr>id_col = 1, name = Some ''Home'',
      latitude = Some (Finite 40), longitude = Some (Finite (-73))\<rparr>] \<and>
   delete_address 9223372036854775808
     [\<lparr>id_col = 1, name = Some ''Home'', latitude = Some (Finite 40),
        longitude = Some (Finite (-73))\<rparr>] =
     (Inl OverflowError,
      [\<lparr>id_col = 1, name = Some ''Home'', latitude = Some (Finite 40),
         longitude = Some (Finite (-73))\<rparr>])"
  by (simp add: post_addresses_def validate_AddressCreate_def create_address_eq next_rowid_def
      delete_address_def query_first_def get_addresses_def query_all_def sqlite_integer_def)

section \<open>Invariants of the store\<close>

text \<open>
  C8. Every command keeps the invariant that each stored record has a latitude and a
  longitude that are not null, and so does every sequence of commands. No command
  changes the id of a record: a creation leaves the rows it finds as they are and adds
  rows after them, an update leaves the id of every row as it is, row by row, and a
  deletion leaves the rows that remain as they are. The two reading operations return
  records of the store only.
\<close>

theorem coordinates_and_id_invariant:
  "(list_all coordinates_not_null db \<longrightarrow> list_all coordinates_not_null (snd (execute c db))) \<and>
   (list_all coordinates_not_null db \<longrightarrow> list_all coordinates_not_null (run cs db)) \<and>
   (case c of
      Create body \<Rightarrow> prefix db (snd (execute c db))
    | Update address_id body \<Rightarrow> map id_col (snd (execute c db)) = map id_col db
    | Delete address_id \<Rightarrow> subseq (snd (execute c db)) db) \<and>
   set (get_addresses db) \<subseteq> set db \<and>
   (\<forall>r. get_addresses_within_distance km lat lon distance db = Inr r \<longrightarrow> set r \<subseteq> set db)"
proof -
  have new: "coordinates_not_null
      \<lparr>id_col = i, name = Some n, latitude = Some la, longitude = Some lo\<rparr>" for i n la lo
    by (simp add: coordinates_not_null_def)
  have "list_all coordinates_not_null (snd (execute c db))"
    if "list_all coordinates_not_null db"
    using that new
    by (simp add: execute_preserves [where P = coordinates_not_null] setattr_coordinates)
  moreover have "list_all coordinates_not_null (run cs db)"
    if "list_all coordinates_not_null db"
    using that new
    by (simp add: run_preserves [where P = coordinates_not_null] setattr_coordinates)
  moreover have "set (get_addresses db) \<subseteq> set db"
    by (simp add: get_addresses_def query_all_def)
  moreover have "set r \<subseteq> set db"
    if "get_addresses_within_distance km lat lon distance db = Inr r" for r
    using that
    by (auto simp: get_addresses_within_distance_Inr get_addresses_def query_all_def)
  ultimately show ?thesis
    using execute_ids_kept [where c = c and db = db] by blast
qed

theorem coordinates_and_id_invariant_witness:
  "list_all coordinates_not_null
     [\<lparr>id_col = 1, name = Some ''Home'', latitude = Some (Finite 40),
       longitude = Some (Finite (-73))\<rparr>] \<and>
   list_all coordinates_not_null
     (snd (execute (Update 1 (Payload Absent (Given (Finite 41)) Absent))
       [\<lparr>id_col = 1, name = Some ''Home'', latitude = Some (Finite 40),
         longitude = Some (Finite (-73))\<rparr>])) \<and>
   list_all coordinates_not_null
     (run [Create (Payload (Given ''Work'') (Given (Finite 41)) (Given (Finite (-74)))),
           Update 2 (Payload (Given ''Office'') Absent Absent), Delete 1]
       [\<lparr>id_col = 1, name = Some ''Home'', latitude = Some (Finite 40),
         longitude = Some (Finite (-73))\<rparr>]) \<and>
   map id_col (snd (execute (Update 1 (Payload Absent (Given (Finite 41)) Absent))
     [\<lparr>id_col = 1, name = Some ''Home'', latitude = Some (Finite 40),
       longitude = Some (Finite (-73))\<rparr>])) = [1] \<and>
   get_addresses_within_distance example_km (Finite 40) (Finite (-73)) (Finite 1)
     [\<lparr>id_col = 1, name = Some ''Home'', latitude = Some (Finite 40),
       longitude = Some (Finite (-73))\<rparr>] =
     Inr [\<lparr>id_col = 1, name = Some ''Home'', latitude = Some (Finite 40),
            longitude = Some (Finite (-73))\<rparr>] \<and>
   set [\<lparr>id_col = 1, name = Some ''Home'', latitude = Some (Finite 40),
          longitude = Some (Finite (-73))\<rparr>] \<subseteq>
   set [\<lparr>id_col = 1, name = Some ''Home'', latitude = Some (Finite 40),
          longitude = Some (Finite (-73))\<rparr>]"
proof -
  let ?home = "\<lparr>id_col = 1, name = Some ''Home'', latitude = Some (Finite 40),
                 longitude = Some (Finite (-73))\<rparr>"
  have h: "list_all coordinates_not_null [?home]"
    by (simp add: coordinates_not_null_def)
  have w: "get_addresses_within_distance example_km (Finite 40) (Finite (-73)) (Finite 1)
      [?home] = Inr [?home]"
    by (simp add: get_addresses_within_distance_def query_all_def geodesic_def
        normalize_coordinates_def example_km_def)
  from coordinates_and_id_invariant [where db = "[?home]"
      and c = "Update 1 (Payload Absent (Given (Finite 41)) Absent)"
      and cs = "[Create (Payload (Given ''Work'') (Given (Finite 41)) (Given (Finite (-74)))),
                 Update 2 (Payload (Given ''Office'') Absent Absent), Delete 1]"
      and km = example_km and lat = "Finite 40" and lon = "Finite (-73)"
      and distance = "Finite 1"] h w
  show ?thesis by simp
qed

text \<open>
  C9. An update whose body carries null for the name, the latitude or the longitude fails
  validation: the handler is not called and the store is as it was. No command stores a
  null name, latitude or longitude: a store without nulls has none after any command and
  after any sequence of commands, and so has every store built from the empty one.
\<close>

theorem null_rejected_never_stored:
  "((n = Null \<or> la = Null \<or> lo = Null) \<longrightarrow>
      validate_AddressUpdate (Payload n la lo) = Inl RequestValidationError \<and>
      put_addresses address_id (Payload n la lo) db = (Inl RequestValidationError, db)) \<and>
   (list_all nothing_null db \<longrightarrow> list_all nothing_null (snd (execute c db))) \<and>
   (list_all nothing_null db \<longrightarrow> list_all nothing_null (run cs db)) \<and>
   list_all nothing_null (run cs [])"
proof -
  have new: "nothing_null
      \<lparr>id_col = i, name = Some n, latitude = Some la, longitude = Some lo\<rparr>" for i n la lo
    by (simp add: nothing_null_def)
  have rejected: "validate_AddressUpdate (Payload n la lo) = Inl RequestValidationError"
    if "n = Null \<or> la = Null \<or> lo = Null"
    using that by (auto simp: validate_AddressUpdate_def split: option.splits)
  then have "put_addresses address_id (Payload n la lo) db = (Inl RequestValidationError, db)"
    if "n = Null \<or> la = Null \<or> lo = Null"
    using that by (simp add: put_addresses_def)
  moreover have "list_all nothing_null (snd (execute c db))" if "list_all nothing_null db"
    using that new
    by (simp add: execute_preserves [where P = nothing_null] setattr_nothing_null)
  moreover have run: "list_all nothing_null (run cs db)" if "list_all nothing_null db" for db
    using that new
    by (simp add: run_preserves [where P = nothing_null] setattr_nothing_null)
  moreover have "list_all nothing_null (run cs [])"
    by (rule run) simp
  ultimately show ?thesis
    using rejected by blast
qed

theorem null_rejected_never_stored_witness:
  "validate_AddressUpdate (Payload Null (Given (Finite 41)) Absent) =
     Inl RequestValidationError \<and>
   put_addresses 1 (Payload Null (Given (Finite 41)) Absent)
     [\<lparr>id_col = 1, name = Some ''Home'', latitude = Some (Finite 40),
       longitude = Some (Finite (-73))\<rparr>] =
     (Inl RequestValidationError,
      [\<lparr>id_col = 1, name = Some ''Home'', latitude = Some (Finite 40),
         longitude = Some (Finite (-73))\<rparr>]) \<and>
   list_all nothing_null
     [\<lparr>id_col = 1, name = Some ''Home'', latitude = Some (Finite 40),
       longitude = Some (Finite (-73))\<rparr>] \<and>
   list_all nothing_null
     (snd (execute (Update 1 (Payload Absent (Given (Finite 41)) Absent))
       [\<lparr>id_col = 1, name = Some ''Home'', latitude = Some (Finite 40),
         longitude = Some (Finite (-73))\<rparr>])) \<and>
   list_all nothing_null
     (run [Create (Payload (Given ''Work'') (Given (Finite 41)) (Given (Finite (-74)))),
           Update 2 (Payload (Given ''Office'') Absent Absent), Delete 1]
       [\<lparr>id_col = 1, name = Some ''Home'', latitude = Some (Finite 40),
         longitude = Some (Finite (-73))\<rparr>])"
proof -
  let ?home = "\<lparr>id_col = 1, name = Some ''Home'', latitude = Some (Finite 40),
                 longitude = Some (Finite (-73))\<rparr>"
  have h: "list_all nothing_null [?home]"
    by (simp add: nothing_null_def)
  from null_rejected_never_stored [where n = Null and la = "Given (Finite 41)" and lo = Absent
      and address_id = 1 and db = "[?home]"
      and c = "Update 1 (Payload Absent (Given (Finite 41)) Absent)"
      and cs = "[Create (Payload (Given ''Work'') (Given (Finite 41)) (Given (Finite (-74)))),
                 Update 2 (Payload (Given ''Office'') Absent Absent), Delete 1]"] h
  show ?thesis by simp
qed

section \<open>Distance query\<close>

text \<open>
  C2, as the code behaves. When the geodesy library takes every listed record as a point
  (finite coordinates, latitude from -90 to 90), and the reference point too unless the
  store is empty, the distance query returns the records of the store whose distance from
  the reference point, as the library measures it, is at most the distance asked for: the
  listed records that pass that test, each as often as it is listed. A record at exactly
  that distance is returned, a record farther away is not, and when the library measures
  0 from the reference point to itself, a record at the reference point is returned for
  the distance 0. In every other case the library raises \<open>ValueError\<close> and the query
  returns nothing.
\<close>

theorem within_distance_inclusive:
  "((get_addresses db = [] \<or> on_globe (Some lat, Some lon)) \<and>
    list_all row_on_globe (get_addresses db) \<longrightarrow>
      get_addresses_within_distance km lat lon distance db =
        Inr (filter (near km (Some lat, Some lon) distance) (get_addresses db)) \<and>
      (a \<in> set (get_addresses db) \<and>
       geodesic km (Some lat, Some lon) (latitude a, longitude a) = Inr d \<and>
       distance = Finite d \<longrightarrow>
         a \<in> set (filter (near km (Some lat, Some lon) distance) (get_addresses db))) \<and>
      (a \<in> set (get_addresses db) \<and>
       geodesic km (Some lat, Some lon) (latitude a, longitude a) = Inr d \<and>
       distance = Finite x \<and> x < d \<longrightarrow>
         a \<notin> set (filter (near km (Some lat, Some lon) distance) (get_addresses db))) \<and>
      (a \<in> set (get_addresses db) \<and> latitude a = Some lat \<and> longitude a = Some lon \<and>
       geodesic km (Some lat, Some lon) (Some lat, Some lon) = Inr 0 \<and>
       distance = Finite 0 \<longrightarrow>
         a \<in> set (filter (near km (Some lat, Some lon) distance) (get_addresses db)))) \<and>
   (\<not> ((get_addresses db = [] \<or> on_globe (Some lat, Some lon)) \<and>
        list_all row_on_globe (get_addresses db)) \<longrightarrow>
      get_addresses_within_distance km lat lon distance db = Inl ValueError)"
proof -
  let ?rows = "get_addresses db"
  let ?ok = "(?rows = [] \<or> on_globe (Some lat, Some lon)) \<and> list_all row_on_globe ?rows"
  have ok: "list_all (\<lambda>a. on_globe (Some lat, Some lon) \<and> row_on_globe a) ?rows \<longleftrightarrow> ?ok"
    by (cases ?rows) (auto simp: list_all_iff)
  have returns: "get_addresses_within_distance km lat lon distance db =
      Inr (filter (near km (Some lat, Some lon) distance) ?rows)" if ?ok
    using that ok by (simp add: get_addresses_within_distance_Inr)
  have raises: "get_addresses_within_distance km lat lon distance db = Inl ValueError"
    if "\<not> ?ok"
  proof -
    from that ok
    have "\<not> list_all (\<lambda>a. on_globe (Some lat, Some lon) \<and> row_on_globe a) ?rows"
      by blast
    then show ?thesis by (rule get_addresses_within_distance_raises)
  qed
  have at: "a \<in> set (filter (near km (Some lat, Some lon) distance) ?rows)"
    if "a \<in> set ?rows"
      "geodesic km (Some lat, Some lon) (latitude a, longitude a) = Inr d" "distance = Finite d"
    using that by (simp add: near_def)
  have beyond: "a \<notin> set (filter (near km (Some lat, Some lon) distance) ?rows)"
    if "geodesic km (Some lat, Some lon) (latitude a, longitude a) = Inr d"
      "distance = Finite x" "x < d"
    using that by (simp add: near_def)
  have here: "a \<in> set (filter (near km (Some lat, Some lon) distance) ?rows)"
    if "a \<in> set ?rows" "latitude a = Some lat" "longitude a = Some lon"
      "geodesic km (Some lat, Some lon) (Some lat, Some lon) = Inr 0" "distance = Finite 0"
    using that by (simp add: near_def)
  from returns raises at beyond here show ?thesis by blast
qed

theorem within_distance_inclusive_witness:
  "list_all row_on_globe (get_addresses
     [\<lparr>id_col = 1, name = Some ''Origin'', latitude = Some (Finite 0),
       longitude = Some (Finite 0)\<rparr>,
      \<lparr>id_col = 2, name = Some ''East'', latitude = Some (Finite 0),
       longitude = Some (Finite 1)\<rparr>]) \<and>
   on_globe (Some (Finite 0), Some (Finite 0)) \<and>
   get_addresses_within_distance example_km (Finite 0) (Finite 0) (Finite 0)
     [\<lparr>id_col = 1, name = Some ''Origin'', latitude = Some (Finite 0),
       longitude = Some (Finite 0)\<rparr>,
      \<lparr>id_col = 2, name = Some ''East'', latitude = Some (Finite 0),
       longitude = Some (Finite 1)\<rparr>] =
     Inr [\<lparr>id_col = 1, name = Some ''Origin'', latitude = Some (Finite 0),
            longitude = Some (Finite 0)\<rparr>] \<and>
   geodesic example_km (Some (Finite 0), Some (Finite 0)) (Some (Finite 0), Some (Finite 0)) =
     Inr 0 \<and>
   geodesic example_km (Some (Finite 0), Some (Finite 0)) (Some (Finite 0), Some (Finite 1)) =
     Inr 111 \<and>
   \<not> list_all row_on_globe (get_addresses
     [\<lparr>id_col = 1, name = Some ''North'', latitude = Some (Finite 91),
       longitude = Some (Finite 0)\<rparr>]) \<and>
   get_addresses_within_distance example_km (Finite 0) (Finite 0) (Finite 0)
     [\<lparr>id_col = 1, name = Some ''North'', latitude = Some (Finite 91),
       longitude = Some (Finite 0)\<rparr>] = Inl ValueError"
proof -
  let ?origin = "\<lparr>id_col = 1, name = Some ''Origin'', latitude = Some (Finite 0),
                   longitude = Some (Finite 0)\<rparr>"
  let ?east = "\<lparr>id_col = 2, name = Some ''East'', latitude = Some (Finite 0),
                 longitude = Some (Finite 1)\<rparr>"
  let ?north = "\<lparr>id_col = 1, name = Some ''North'', latitude = Some (Finite 91),
                  longitude = Some (Finite 0)\<rparr>"
  have rows: "list_all row_on_globe (get_addresses [?origin, ?east])"
    by (simp add: get_addresses_def query_all_def row_on_globe_def on_globe_def
        normalize_coordinates_def)
  have ref: "on_globe (Some (Finite 0), Some (Finite 0))"
    by (simp add: on_globe_def normalize_coordinates_def)
  have d0: "geodesic example_km (Some (Finite 0), Some (Finite 0))
      (Some (Finite 0), Some (Finite 0)) = Inr 0"
    by (simp add: geodesic_def normalize_coordinates_def example_km_def)
  have d1: "geodesic example_km (Some (Finite 0), Some (Finite 0))
      (Some (Finite 0), Some (Finite 1)) = Inr 111"
    by (simp add: geodesic_def normalize_coordinates_def example_km_def)
  have north: "\<not> list_all row_on_globe (get_addresses [?north])"
    by (simp add: get_addresses_def query_all_def row_on_globe_def on_globe_def
        normalize_coordinates_def)
  have listed: "get_addresses [?origin, ?east] = [?origin, ?east]"
    by (simp add: get_addresses_def query_all_def)
  have near: "near example_km (Some (Finite 0), Some (Finite 0)) (Finite 0) ?origin"
    "\<not> near example_km (Some (Finite 0), Some (Finite 0)) (Finite 0) ?east"
    using d0 d1 by (simp_all add: near_def)
  from within_distance_inclusive [where db = "[?origin, ?east]" and km = example_km
      and lat = "Finite 0" and lon = "Finite 0" and distance = "Finite 0"] rows ref
  have a: "get_addresses_within_distance example_km (Finite 0) (Finite 0) (Finite 0)
      [?origin, ?east] = Inr [?origin]"
    by (simp add: listed near)
  from within_distance_inclusive [where db = "[?north]" and km = example_km
      and lat = "Finite 0" and lon = "Finite 0" and distance = "Finite 0"] north
  have b: "get_addresses_within_distance example_km (Finite 0) (Finite 0) (Finite 0)
      [?north] = Inl ValueError"
    by blast
  from rows ref a d0 d1 north b show ?thesis by blast
qed

text \<open>
  C2 as stated fails: not for every store are the records within the distance returned.
  Create a record at (0, 0) and a record at latitude 91, which the creation accepts. The
  first is at the reference point (0, 0), at distance 0, and the query for the distance 0
  returns no record: the library raises on the second.
\<close>

theorem within_distance_raises_on_created_row:
  "run [Create (Payload (Given ''Origin'') (Given (Finite 0)) (Given (Finite 0))),
        Create (Payload (Given ''North'') (Given (Finite 91)) (Given (Finite 0)))] [] =
     [\<lparr>id_col = 1, name = Some ''Origin'', latitude = Some (Finite 0),
        longitude = Some (Finite 0)\<rparr>,
      \<lparr>id_col = 2, name = Some ''North'', latitude = Some (Finite 91),
        longitude = Some (Finite 0)\<rparr>] \<and>
   geodesic example_km (Some (Finite 0), Some (Finite 0)) (Some (Finite 0), Some (Finite 0)) =
     Inr 0 \<and>
   get_addresses_within_distance example_km (Finite 0) (Finite 0) (Finite 0)
     (run [Create (Payload (Given ''Origin'') (Given (Finite 0)) (Given (Finite 0))),
           Create (Payload (Given ''North'') (Given (Finite 91)) (Given (Finite 0)))] []) =
     Inl ValueError"
  by (simp add: post_addresses_def validate_AddressCreate_def create_address_eq next_rowid_def
      get_addresses_within_distance_def query_all_def geodesic_def normalize_coordinates_def
      example_km_def)

text \<open>
  C10. For every store, reference point and distance, a result of the distance query is
  a subsequence of the list of all addresses of the same store: same order, and no
  record more often than it is listed. The query either returns the listed records that
  pass its test or raises the error of the geodesy library.
\<close>

theorem within_distance_subseq:
  "(\<forall>r. get_addresses_within_distance km lat lon distance db = Inr r \<longrightarrow>
      subseq r (get_addresses db) \<and> count_list r a \<le> count_list (get_addresses db) a) \<and>
   (get_addresses_within_distance km lat lon distance db =
      Inr (filter (near km (Some lat, Some lon) distance) (get_addresses db)) \<or>
    get_addresses_within_distance km lat lon distance db = Inl ValueError)"
proof -
  have "subseq r (get_addresses db) \<and> count_list r a \<le> count_list (get_addresses db) a"
    if "get_addresses_within_distance km lat lon distance db = Inr r" for r
    using that by (simp add: get_addresses_within_distance_Inr count_list_filter_le)
  moreover have "get_addresses_within_distance km lat lon distance db =
      Inr (filter (near km (Some lat, Some lon) distance) (get_addresses db)) \<or>
    get_addresses_within_distance km lat lon distance db = Inl ValueError"
  proof (cases "get_addresses_within_distance km lat lon distance db")
    case (Inl e)
    with get_addresses_within_distance_error [OF Inl] show ?thesis by simp
  next
    case (Inr r)
    then show ?thesis by (simp add: get_addresses_within_distance_Inr)
  qed
  ultimately show ?thesis by blast
qed

theorem within_distance_subseq_witness:
  "get_addresses_within_distance example_km (Finite 0) (Finite 0) (Finite 0)
     [\<lparr>id_col = 1, name = Some ''Origin'', latitude = Some (Finite 0),
       longitude = Some (Finite 0)\<rparr>,
      \<lparr>id_col = 2, name = Some ''East'', latitude = Some (Finite 0),
       longitude = Some (Finite 1)\<rparr>] =
     Inr [\<lparr>id_col = 1, name = Some ''Origin'', latitude = Some (Finite 0),
            longitude = Some (Finite 0)\<rparr>] \<and>
   subseq [\<lparr>id_col = 1, name = Some ''Origin'', latitude = Some (Finite 0),
             longitude = Some (Finite 0)\<rparr>]
     (get_addresses
       [\<lparr>id_col = 1, name = Some ''Origin'', latitude = Some (Finite 0),
         longitude = Some (Finite 0)\<rparr>,
        \<lparr>id_col = 2, name = Some ''East'', latitude = Some (Finite 0),
         longitude = Some (Finite 1)\<rparr>]) \<and>
   count_list [\<lparr>id_col = 1, name = Some ''Origin'', latitude = Some (Finite 0),
                 longitude = Some (Finite 0)\<rparr>]
       \<lparr>id_col = 1, name = Some ''Origin'', latitude = Some (Finite 0),
         longitude = Some (Finite 0)\<rparr>
     \<le> count_list (get_addresses
       [\<lparr>id_col = 1, name = Some ''Origin'', latitude = Some (Finite 0),
         longitude = Some (Finite 0)\<rparr>,
        \<lparr>id_col = 2, name = Some ''East'', latitude = Some (Finite 0),
         longitude = Some (Finite 1)\<rparr>])
       \<lparr>id_col = 1, name = Some ''Origin'', latitude = Some (Finite 0),
         longitude = Some (Finite 0)\<rparr>"
proof -
  let ?origin = "\<lparr>id_col = 1, name = Some ''Origin'', latitude = Some (Finite 0),
                   longitude = Some (Finite 0)\<rparr>"
  let ?east = "\<lparr>id_col = 2, name = Some ''East'', latitude = Some (Finite 0),
                 longitude = Some (Finite 1)\<rparr>"
  have w: "get_addresses_within_distance example_km (Finite 0) (Finite 0) (Finite 0)
      [?origin, ?east] = Inr [?origin]"
    by (simp add: get_addresses_within_distance_def query_all_def geodesic_def
        normalize_coordinates_def example_km_def)
  from within_distance_subseq [where db = "[?origin, ?east]" and km = example_km
      and lat = "Finite 0" and lon = "Finite 0" and distance = "Finite 0" and a = ?origin] w
  show ?thesis by blast
qed

end
